theory Spec2Isabelle
  imports Main "HOL-Library.Char_ord" "HOL-Library.List_Lexorder" "HOL-Library.Multiset"
begin

section \<open>JavaScript values used by the manifest selector\<close>

text \<open>
  The fields of the selector are JavaScript strings that may also be \<open>null\<close> or
  \<open>undefined\<close>; the source distinguishes the three (it assigns \<open>null\<close>, destructuring
  a short array gives \<open>undefined\<close>, a default parameter replaces \<open>undefined\<close> only).
\<close>

datatype jsval = Undefined | Null | Str string

datatype js_error = TypeError | Rejected

text \<open>Truthiness of a value in a condition: only a non-empty string is truthy.\<close>

fun truthy :: "jsval \<Rightarrow> bool" where
  "truthy (Str s) = (s \<noteq> [])"
| "truthy Undefined = False"
| "truthy Null = False"

text \<open>What a template literal \<^verbatim>\<open>`${v}`\<close> prints for a value.\<close>

fun template :: "jsval \<Rightarrow> string" where
  "template (Str s) = s"
| "template Undefined = ''undefined''"
| "template Null = ''null''"

text \<open>\<^verbatim>\<open>v || ''\<close>: a falsy value is replaced by the empty string.\<close>

fun or_empty :: "jsval \<Rightarrow> string" where
  "or_empty (Str s) = s"
| "or_empty Undefined = []"
| "or_empty Null = []"

text \<open>
  \<^verbatim>\<open>s.split(sep)\<close> for a one-character separator: the string is cut at every
  occurrence of the separator; the result always has at least one element.
\<close>

fun js_split :: "char \<Rightarrow> string \<Rightarrow> string list" where
  "js_split sep [] = [[]]"
| "js_split sep (c # cs) =
     (if c = sep then [] # js_split sep cs
      else (case js_split sep cs of
              [] \<Rightarrow> [[c]]
            | w # ws \<Rightarrow> (c # w) # ws))"

text \<open>
  \<^verbatim>\<open>const [kind, name] = arr\<close>: the first two elements, \<open>undefined\<close> where the
  array is too short; further elements are ignored.
\<close>

fun destructure2 :: "string list \<Rightarrow> jsval \<times> jsval" where
  "destructure2 [] = (Undefined, Undefined)"
| "destructure2 [a] = (Str a, Undefined)"
| "destructure2 (a # b # rest) = (Str a, Str b)"

text \<open>\<^verbatim>\<open>s.includes(sub)\<close>: \<open>sub\<close> occurs in \<open>s\<close> as a contiguous substring.\<close>

fun starts_with :: "string \<Rightarrow> string \<Rightarrow> bool" where
  "starts_with [] s = True"
| "starts_with (p # ps) [] = False"
| "starts_with (p # ps) (c # cs) = (p = c \<and> starts_with ps cs)"

fun js_includes :: "string \<Rightarrow> string \<Rightarrow> bool" where
  "js_includes sub [] = (sub = [])"
| "js_includes sub (c # cs) = (starts_with sub (c # cs) \<or> js_includes sub cs)"

section \<open>Parsing a Spinnaker name\<close>

text \<open>
  \<^verbatim>\<open>parseSpinnakerName\<close> returns the object \<open>{ kind, name }\<close>; the model returns the
  pair (kind, name).
\<close>

definition parseSpinnakerName :: "jsval \<Rightarrow> jsval \<times> jsval" where
  "parseSpinnakerName spinnakerName =
     destructure2 (js_split (CHR '' '') (or_empty spinnakerName))"

text \<open>
  The parsing rule in the words of the specification, for comparison with the source:
  the string is cut once, at its first space; the part before it is the kind
  (\<open>undefined\<close> when it is empty), the part after it the name (\<open>undefined\<close> when there is
  no space).
\<close>

definition splitOnFirstSpace :: "string \<Rightarrow> jsval \<times> jsval" where
  "splitOnFirstSpace s =
     (let k = takeWhile (\<lambda>c. c \<noteq> CHR '' '') s;
          r = dropWhile (\<lambda>c. c \<noteq> CHR '' '') s
      in (if k = [] then Undefined else Str k,
          if r = [] then Undefined else Str (tl r)))"

section \<open>The selector and the component\<close>

datatype SelectorMode = Static | Dynamic

text \<open>
  Modelled from the spec: the declaration of \<open>IManifestSelector\<close> is not among the
  sources; the record has the fields the specification's data model lists, each a string
  that may be unset. \<open>location\<close> is the namespace.
\<close>

record IManifestSelector =
  mode :: "SelectorMode option"
  manifestName :: jsval
  kind :: jsval
  account :: jsval
  location :: jsval
  cluster :: jsval
  criteria :: jsval

text \<open>
  Modelled from the spec: \<open>IAccountDetails\<close> is declared outside the sources; the
  component reads its name, its namespaces and its map from kinds to Spinnaker kinds
  (an object, here the list of its entries); the last two may be missing.
\<close>

record IAccountDetails =
  acc_name :: string
  acc_namespaces :: "string list option"
  acc_spinnakerKindMap :: "(string \<times> string) list option"

text \<open>The properties of the component that its logic reads.\<close>

record IManifestSelectorProps =
  includeSpinnakerKinds :: "string list option"
  has_onChange :: bool

text \<open>A value pushed into the search stream: kind, namespace, account.\<close>

type_synonym search_triple = "jsval \<times> jsval \<times> jsval"

text \<open>
  The state of the component. The selector of the state is the object the owner passed
  in, mutated in place; \<open>onChange_calls\<close> records every call of the owner's callback with
  the selector as it is at the call, and \<open>search_next\<close> every triple the search stream
  passed on to its stages, both oldest first. \<open>search_subscribed\<close> says that the
  subscription to the search stream, made in \<open>componentDidMount\<close>, is open.
\<close>

record IManifestSelectorState =
  accounts :: "IAccountDetails list"
  selector :: IManifestSelector
  namespaces :: "string list"
  kinds :: "string list"
  resources :: "string list"
  loading :: bool
  onChange_calls :: "IManifestSelector list"
  search_next :: "search_triple list"
  search_subscribed :: bool

text \<open>\<open>Partial<IManifestSelectorState>\<close>: the fields a call of \<open>setState\<close> gives.\<close>

record partial_state =
  p_accounts :: "IAccountDetails list option"
  p_selector :: "IManifestSelector option"
  p_namespaces :: "string list option"
  p_kinds :: "string list option"
  p_resources :: "string list option"
  p_loading :: "bool option"

definition no_fields :: partial_state where
  "no_fields = \<lparr>p_accounts = None, p_selector = None, p_namespaces = None,
                 p_kinds = None, p_resources = None, p_loading = None\<rparr>"

text \<open>A synchronous outcome: the function returns, or throws; the state is kept in both.\<close>

datatype 'a completion = Returns 'a | Throws js_error 'a

fun state_of :: "'a completion \<Rightarrow> 'a" where
  "state_of (Returns c) = c"
| "state_of (Throws e c) = c"

fun thrown :: "'a completion \<Rightarrow> js_error option" where
  "thrown (Returns c) = None"
| "thrown (Throws e c) = Some e"

definition setState :: "partial_state \<Rightarrow> IManifestSelectorState \<Rightarrow> IManifestSelectorState" where
  "setState st c =
     c\<lparr>accounts := (case p_accounts st of Some v \<Rightarrow> v | None \<Rightarrow> accounts c),
       selector := (case p_selector st of Some v \<Rightarrow> v | None \<Rightarrow> selector c),
       namespaces := (case p_namespaces st of Some v \<Rightarrow> v | None \<Rightarrow> namespaces c),
       kinds := (case p_kinds st of Some v \<Rightarrow> v | None \<Rightarrow> kinds c),
       resources := (case p_resources st of Some v \<Rightarrow> v | None \<Rightarrow> resources c),
       loading := (case p_loading st of Some v \<Rightarrow> v | None \<Rightarrow> loading c)\<rparr>"

definition setStateAndUpdateStage ::
  "IManifestSelectorProps \<Rightarrow> partial_state \<Rightarrow> IManifestSelectorState \<Rightarrow> IManifestSelectorState" where
  "setStateAndUpdateStage props st c =
     setState st
       (case p_selector st of
          Some s \<Rightarrow> if has_onChange props then c\<lparr>onChange_calls := onChange_calls c @ [s]\<rparr> else c
        | None \<Rightarrow> c)"

text \<open>
  \<^verbatim>\<open>isExpression = (value = '') => value.includes('${')\<close>. The default replaces
  \<open>undefined\<close> only: on \<open>null\<close> the call of \<open>includes\<close> throws a TypeError.
\<close>

fun isExpression :: "jsval \<Rightarrow> js_error + bool" where
  "isExpression (Str s) = Inr (js_includes [CHR ''$'', CHR 0x7B] s)"
| "isExpression Undefined = Inr (js_includes [CHR ''$'', CHR 0x7B] [])"
| "isExpression Null = Inl TypeError"

text \<open>
  \<^verbatim>\<open>this.search$.next(triple)\<close>. With no open subscription the stream has no
  observer and nothing happens. Otherwise the \<open>do\<close> stage runs at once and sets the
  loading flag, and \<open>switchMap\<close> calls \<open>search\<close> at once. \<open>search\<close> throws before it
  returns a promise exactly when \<open>isExpression\<close> throws on the account; the subscriber
  has no error handler, so the error closes the subscription and is thrown again from
  \<open>next\<close>. What the lookup resolves to arrives later and is the function \<open>search\<close>
  below.
\<close>

definition search_push ::
  "IManifestSelectorProps \<Rightarrow> search_triple \<Rightarrow> IManifestSelectorState \<Rightarrow>
   IManifestSelectorState completion" where
  "search_push props q c =
     (if \<not> search_subscribed c then Returns c
      else
        (let c1 = (setStateAndUpdateStage props (no_fields\<lparr>p_loading := Some True\<rparr>) c)
                    \<lparr>search_next := search_next c @ [q]\<rparr>
         in (case isExpression (snd (snd q)) of
               Inl e \<Rightarrow> Throws e (c1\<lparr>search_subscribed := False\<rparr>)
             | Inr ex \<Rightarrow> Returns c1)))"

section \<open>The two mode handlers\<close>

definition static_handleKindChange :: "jsval \<Rightarrow> IManifestSelectorState \<Rightarrow> IManifestSelectorState" where
  "static_handleKindChange k c =
     (let nm = snd (parseSpinnakerName (manifestName (selector c)))
      in c\<lparr>selector := (selector c)\<lparr>manifestName :=
             (if truthy k
              then (if truthy nm then Str (template k @ '' '' @ template nm) else k)
              else nm)\<rparr>\<rparr>)"

definition static_handleModeChange ::
  "IManifestSelectorProps \<Rightarrow> IManifestSelectorState \<Rightarrow> IManifestSelectorState" where
  "static_handleModeChange props c =
     (let c1 = static_handleKindChange (kind (selector c)) c;
          c2 = c1\<lparr>selector := (selector c1)\<lparr>kind := Null, criteria := Null, cluster := Null\<rparr>\<rparr>
      in setStateAndUpdateStage props (no_fields\<lparr>p_selector := Some (selector c2)\<rparr>) c2)"

definition static_getKind :: "IManifestSelectorState \<Rightarrow> jsval" where
  "static_getKind c = fst (parseSpinnakerName (manifestName (selector c)))"

definition dynamic_handleModeChange ::
  "IManifestSelectorProps \<Rightarrow> IManifestSelectorState \<Rightarrow> IManifestSelectorState" where
  "dynamic_handleModeChange props c =
     (let k = fst (parseSpinnakerName (manifestName (selector c)));
          c1 = c\<lparr>selector := (selector c)\<lparr>kind := k, manifestName := Null\<rparr>\<rparr>
      in setStateAndUpdateStage props (no_fields\<lparr>p_selector := Some (selector c1)\<rparr>) c1)"

definition dynamic_handleKindChange :: "jsval \<Rightarrow> IManifestSelectorState \<Rightarrow> IManifestSelectorState" where
  "dynamic_handleKindChange k c = c\<lparr>selector := (selector c)\<lparr>kind := k\<rparr>\<rparr>"

definition dynamic_getKind :: "IManifestSelectorState \<Rightarrow> jsval" where
  "dynamic_getKind c = kind (selector c)"

text \<open>
  \<^verbatim>\<open>modeDelegate\<close>: the first handler that handles the selector's mode, Static when
  the mode is unset. The handler list is [Static, Dynamic].
\<close>

definition modeDelegate :: "IManifestSelectorState \<Rightarrow> SelectorMode" where
  "modeDelegate c = (case mode (selector c) of None \<Rightarrow> Static | Some m \<Rightarrow> m)"

section \<open>The component's operations\<close>

text \<open>
  The constructor: an unset mode becomes Static, and the owner is told. The selector
  is the owner's own object.
\<close>

definition init_component :: "IManifestSelectorProps \<Rightarrow> IManifestSelector \<Rightarrow> IManifestSelectorState" where
  "init_component props sel =
     (let sel1 = (if mode sel = None then sel\<lparr>mode := Some Static\<rparr> else sel)
      in \<lparr>accounts = [], selector = sel1, namespaces = [], kinds = [], resources = [],
          loading = False,
          onChange_calls = (if mode sel = None \<and> has_onChange props then [sel1] else []),
          search_next = [], search_subscribed = False\<rparr>)"

text \<open>
  \<^verbatim>\<open>componentDidMount\<close> asks for the accounts, whose arrival is \<open>loadAccounts\<close>
  below, and subscribes to the search stream. \<^verbatim>\<open>componentWillUnmount\<close> fires
  \<open>destroy$\<close>, which ends the subscription.
\<close>

definition componentDidMount :: "IManifestSelectorState \<Rightarrow> IManifestSelectorState" where
  "componentDidMount c = c\<lparr>search_subscribed := True\<rparr>"

definition componentWillUnmount :: "IManifestSelectorState \<Rightarrow> IManifestSelectorState" where
  "componentWillUnmount c = c\<lparr>search_subscribed := False\<rparr>"

text \<open>An element of the list the kind-search service resolves to: an object with a name.\<close>

record search_result =
  res_name :: string

text \<open>
  \<^verbatim>\<open>search\<close>. The service \<open>ManifestKindSearchService.search\<close> is a parameter: what its
  promise settles to for the arguments given (\<open>Inl\<close> a rejection). The result is the list
  of the calls made to the service and what the returned promise settles to (\<open>Inl
  TypeError\<close> when \<open>isExpression\<close> throws before any promise exists). \<^verbatim>\<open>sort()\<close> with no
  comparator orders strings by their code units, here the lexicographic order of the
  character codes.
\<close>

definition search ::
  "(jsval \<Rightarrow> jsval \<Rightarrow> jsval \<Rightarrow> js_error + search_result list) \<Rightarrow>
   jsval \<Rightarrow> jsval \<Rightarrow> jsval \<Rightarrow> search_triple list \<times> (js_error + string list)" where
  "search svc k ns acct =
     (case isExpression acct of
        Inl e \<Rightarrow> ([], Inl e)
      | Inr True \<Rightarrow> ([], Inr [])
      | Inr False \<Rightarrow>
          ([(k, ns, acct)],
           (case svc k ns acct of
              Inl e \<Rightarrow> Inl e
            | Inr results \<Rightarrow> Inr (sort (map res_name results)))))"

definition handleNameChange ::
  "IManifestSelectorProps \<Rightarrow> string \<Rightarrow> IManifestSelectorState \<Rightarrow> IManifestSelectorState" where
  "handleNameChange props selectedName c =
     (let k = fst (parseSpinnakerName (manifestName (selector c)));
          c1 = c\<lparr>selector := (selector c)\<lparr>manifestName :=
                 Str (if truthy k then template k @ '' '' @ selectedName
                      else '' '' @ selectedName)\<rparr>\<rparr>
      in setStateAndUpdateStage props (no_fields\<lparr>p_selector := Some (selector c1)\<rparr>) c1)"

text \<open>The subscriber of the search stream, run when a lookup that still counts resolves.\<close>

definition search_resolved ::
  "IManifestSelectorProps \<Rightarrow> string list \<Rightarrow> IManifestSelectorState \<Rightarrow> IManifestSelectorState" where
  "search_resolved props res c =
     (let c1 = (if manifestName (selector c) = Null \<or> manifestName (selector c) = Undefined
                then handleNameChange props [] c else c)
      in setStateAndUpdateStage props
           (no_fields\<lparr>p_loading := Some False, p_resources := Some res\<rparr>) c1)"

text \<open>
  \<^verbatim>\<open>(details.namespaces || []).sort()\<close> sorts the namespace array of the account
  found in place, so the account held in the state's account list, the first of that
  name, has its namespaces sorted from then on; a missing array stays missing.
\<close>

fun sort_namespaces_in_place :: "string \<Rightarrow> IAccountDetails list \<Rightarrow> IAccountDetails list" where
  "sort_namespaces_in_place n [] = []"
| "sort_namespaces_in_place n (a # rest) =
     (if acc_name a = n then a\<lparr>acc_namespaces := map_option sort (acc_namespaces a)\<rparr> # rest
      else a # sort_namespaces_in_place n rest)"

text \<open>
  \<^verbatim>\<open>handleAccountChange\<close>. \<open>find\<close> gives the first account of that name; with none the
  function returns at once.
\<close>

definition handleAccountChange ::
  "IManifestSelectorProps \<Rightarrow> string \<Rightarrow> IManifestSelectorState \<Rightarrow> IManifestSelectorState completion" where
  "handleAccountChange props selectedAccount c =
     (case find (\<lambda>a. acc_name a = selectedAccount) (accounts c) of
        None \<Rightarrow> Returns c
      | Some details \<Rightarrow>
          (let c0 = c\<lparr>accounts := sort_namespaces_in_place selectedAccount (accounts c)\<rparr>;
               nss = sort (case acc_namespaces details of None \<Rightarrow> [] | Some l \<Rightarrow> l);
               ks = sort (map fst (filter
                      (\<lambda>e. case includeSpinnakerKinds props of
                              None \<Rightarrow> True
                            | Some inc \<Rightarrow> if inc \<noteq> [] then List.member inc (snd e) else True)
                      (case acc_spinnakerKindMap details of None \<Rightarrow> [] | Some m \<Rightarrow> m)))
           in (case isExpression (location (selector c0)) of
                 Inl e \<Rightarrow> Throws e c0
               | Inr ex \<Rightarrow>
                   (let sel1 = (if \<not> ex \<and> list_all (\<lambda>ns. Str ns \<noteq> location (selector c0)) nss
                                then (selector c0)\<lparr>location := Null\<rparr> else selector c0);
                        sel2 = sel1\<lparr>account := Str selectedAccount\<rparr>;
                        pk = fst (parseSpinnakerName (manifestName sel2))
                    in (case search_push props
                               (if truthy pk then pk else kind sel2, location sel2, account sel2)
                               (c0\<lparr>selector := sel2\<rparr>) of
                          Throws e c2 \<Rightarrow> Throws e c2
                        | Returns c2 \<Rightarrow>
                            Returns (setStateAndUpdateStage props
                              (no_fields\<lparr>p_namespaces := Some nss, p_kinds := Some ks,
                                          p_selector := Some (selector c2)\<rparr>) c2))))))"

text \<open>
  \<^verbatim>\<open>loadAccounts\<close>, once the account service has resolved to \<open>accts\<close>. \<open>dflt\<close> is
  \<open>SETTINGS.providers.kubernetes.defaults.account\<close>, a setting from outside the sources.
\<close>

definition loadAccounts ::
  "IManifestSelectorProps \<Rightarrow> jsval \<Rightarrow> IAccountDetails list \<Rightarrow> IManifestSelectorState \<Rightarrow>
   IManifestSelectorState completion" where
  "loadAccounts props dflt accts c =
     (let k = fst (parseSpinnakerName (manifestName (selector c)));
          c1 = setStateAndUpdateStage props (no_fields\<lparr>p_accounts := Some accts\<rparr>) c;
          c2 = (case accts of
                  [] \<Rightarrow> c1
                | a0 # rest \<Rightarrow>
                    if \<not> truthy (account (selector c1))
                    then c1\<lparr>selector := (selector c1)\<lparr>account :=
                           (if list_ex (\<lambda>e. Str (acc_name e) = dflt) accts then dflt
                            else Str (acc_name a0))\<rparr>\<rparr>
                    else c1);
          r3 = (if truthy (account (selector c2))
                then handleAccountChange props (or_empty (account (selector c2))) c2
                else Returns c2)
      in (case r3 of
            Throws e c3 \<Rightarrow> Throws e c3
          | Returns c3 \<Rightarrow>
              (if truthy k
               then search_push props (k, location (selector c3), account (selector c3)) c3
               else Returns c3)))"

text \<open>
  \<^verbatim>\<open>handleNamespaceChange\<close>: the argument is the chosen option (\<open>None\<close> for no option,
  otherwise its value).
\<close>

definition handleNamespaceChange ::
  "IManifestSelectorProps \<Rightarrow> jsval option \<Rightarrow> IManifestSelectorState \<Rightarrow>
   IManifestSelectorState completion" where
  "handleNamespaceChange props selectedNamespace c =
     (let c1 = c\<lparr>selector := (selector c)\<lparr>location :=
                 (case selectedNamespace of
                    None \<Rightarrow> Null
                  | Some v \<Rightarrow> if truthy v then v else Null)\<rparr>\<rparr>
      in (case search_push props
                 (fst (parseSpinnakerName (manifestName (selector c1))),
                  location (selector c1), account (selector c1)) c1 of
            Throws e c2 \<Rightarrow> Throws e c2
          | Returns c2 \<Rightarrow>
              Returns (setStateAndUpdateStage props
                         (no_fields\<lparr>p_selector := Some (selector c2)\<rparr>) c2)))"

definition handleKindChange ::
  "IManifestSelectorProps \<Rightarrow> jsval \<Rightarrow> IManifestSelectorState \<Rightarrow>
   IManifestSelectorState completion" where
  "handleKindChange props k c =
     (let c1 = (case modeDelegate c of
                  Static \<Rightarrow> static_handleKindChange k c
                | Dynamic \<Rightarrow> dynamic_handleKindChange k c)
      in search_push props (k, location (selector c1), account (selector c1)) c1)"

text \<open>
  \<^verbatim>\<open>handleModeSelect\<close>: the mode is stored and the owner told; the handler of the new
  mode then migrates the selector, in the callback of \<open>setState\<close>.
\<close>

definition handleModeSelect ::
  "IManifestSelectorProps \<Rightarrow> SelectorMode \<Rightarrow> IManifestSelectorState \<Rightarrow> IManifestSelectorState" where
  "handleModeSelect props m c =
     (let c1 = c\<lparr>selector := (selector c)\<lparr>mode := Some m\<rparr>\<rparr>;
          c2 = setStateAndUpdateStage props (no_fields\<lparr>p_selector := Some (selector c1)\<rparr>) c1
      in (case modeDelegate c2 of
            Static \<Rightarrow> static_handleModeChange props c2
          | Dynamic \<Rightarrow> dynamic_handleModeChange props c2))"

definition handleClusterChange ::
  "IManifestSelectorProps \<Rightarrow> jsval \<Rightarrow> IManifestSelectorState \<Rightarrow> IManifestSelectorState" where
  "handleClusterChange props clusterName c =
     (let c1 = c\<lparr>selector := (selector c)\<lparr>cluster := clusterName\<rparr>\<rparr>
      in setStateAndUpdateStage props (no_fields\<lparr>p_selector := Some (selector c1)\<rparr>) c1)"

definition handleCriteriaChange ::
  "IManifestSelectorProps \<Rightarrow> jsval \<Rightarrow> IManifestSelectorState \<Rightarrow> IManifestSelectorState" where
  "handleCriteriaChange props crit c =
     (let c1 = c\<lparr>selector := (selector c)\<lparr>criteria := crit\<rparr>\<rparr>
      in setStateAndUpdateStage props (no_fields\<lparr>p_selector := Some (selector c1)\<rparr>) c1)"


section \<open>Example inputs\<close>

text \<open>A selector object with no field set, and properties with a callback and no kind filter.\<close>

definition empty_selector :: IManifestSelector where
  "empty_selector = \<lparr>mode = None, manifestName = Undefined, kind = Undefined,
                      account = Undefined, location = Undefined, cluster = Undefined,
                      criteria = Undefined\<rparr>"

definition plain_props :: IManifestSelectorProps where
  "plain_props = \<lparr>includeSpinnakerKinds = None, has_onChange = True\<rparr>"

text \<open>The component as constructed and mounted for a selector.\<close>

definition component_for :: "IManifestSelector \<Rightarrow> IManifestSelectorState" where
  "component_for sel = componentDidMount (init_component plain_props sel)"

section \<open>Facts about splitting and parsing\<close>

lemma js_split_ne: "js_split sep s \<noteq> []"
  by (induction s) (auto split: list.splits)

lemma hd_js_split: "hd (js_split sep s) = takeWhile (\<lambda>c. c \<noteq> sep) s"
  by (induction s) (auto split: list.splits simp: js_split_ne)

lemma tl_js_split:
  "tl (js_split sep s) =
     (if dropWhile (\<lambda>c. c \<noteq> sep) s = [] then []
      else js_split sep (tl (dropWhile (\<lambda>c. c \<noteq> sep) s)))"
  by (induction s) (auto split: list.splits simp: js_split_ne)

lemma js_split_no_sep: "sep \<notin> set s \<Longrightarrow> js_split sep s = [s]"
  by (induction s) auto

lemma js_split_append: "sep \<notin> set k \<Longrightarrow> js_split sep (k @ sep # r) = k # js_split sep r"
  by (induction k) auto

lemma destructure2_hd_tl:
  "xs \<noteq> [] \<Longrightarrow>
   destructure2 xs = (Str (hd xs), if tl xs = [] then Undefined else Str (hd (tl xs)))"
  by (cases xs rule: destructure2.cases) auto

lemma parse_tokens:
  "parseSpinnakerName (Str s) =
     (Str (takeWhile (\<lambda>c. c \<noteq> CHR '' '') s),
      if dropWhile (\<lambda>c. c \<noteq> CHR '' '') s = [] then Undefined
      else Str (takeWhile (\<lambda>c. c \<noteq> CHR '' '') (tl (dropWhile (\<lambda>c. c \<noteq> CHR '' '') s))))"
  by (auto simp add: parseSpinnakerName_def destructure2_hd_tl js_split_ne hd_js_split tl_js_split)

lemma parse_unset: "\<not> truthy v \<Longrightarrow> parseSpinnakerName v = (Str [], Undefined)"
  by (cases v) (auto simp: parseSpinnakerName_def)

lemma parse_vs_first_space:
  "(parseSpinnakerName (Str s) = splitOnFirstSpace s) =
     (takeWhile (\<lambda>c. c \<noteq> CHR '' '') s \<noteq> [] \<and>
      CHR '' '' \<notin> set (tl (dropWhile (\<lambda>c. c \<noteq> CHR '' '') s)))"
proof (cases "dropWhile (\<lambda>c. c \<noteq> CHR '' '') s = []")
  case True
  then show ?thesis
    by (simp only: parse_tokens splitOnFirstSpace_def Let_def) auto
next
  case False
  have "(takeWhile (\<lambda>c. c \<noteq> CHR '' '') r = r) = (CHR '' '' \<notin> set r)" for r
    by (auto simp: takeWhile_eq_all_conv)
  with False show ?thesis
    by (simp only: parse_tokens splitOnFirstSpace_def Let_def) auto
qed

lemma fst_parse_Str: "\<exists>k. fst (parseSpinnakerName v) = Str k \<and> CHR '' '' \<notin> set k"
proof (cases v)
  case (Str s)
  have "CHR '' '' \<notin> set (takeWhile (\<lambda>c. c \<noteq> CHR '' '') s)"
    by (auto dest: set_takeWhileD)
  then show ?thesis using Str by (simp add: parse_tokens)
qed (simp_all add: parseSpinnakerName_def)


lemma parse_pack:
  assumes "CHR '' '' \<notin> set k" "CHR '' '' \<notin> set n"
  shows "parseSpinnakerName (Str (k @ '' '' @ n)) = (Str k, Str n)"
  using assms by (simp add: parseSpinnakerName_def js_split_append js_split_no_sep)

text \<open>\<open>js_includes\<close> is the substring test.\<close>

lemma starts_with_iff: "starts_with p s \<longleftrightarrow> (\<exists>ss. s = p @ ss)"
  by (induction p s rule: starts_with.induct) auto

lemma js_includes_iff: "js_includes sub s \<longleftrightarrow> (\<exists>ps ss. s = ps @ sub @ ss)"
proof (induction s)
  case Nil
  then show ?case by auto
next
  case (Cons c cs)
  show ?case
  proof
    assume "js_includes sub (c # cs)"
    then consider "starts_with sub (c # cs)" | "js_includes sub cs" by auto
    then show "\<exists>ps ss. c # cs = ps @ sub @ ss"
    proof cases
      case 1
      then obtain ss where "c # cs = sub @ ss" by (auto simp: starts_with_iff)
      then have "c # cs = [] @ sub @ ss" by simp
      then show ?thesis by blast
    next
      case 2
      then obtain ps ss where "cs = ps @ sub @ ss" using Cons.IH by blast
      then have "c # cs = (c # ps) @ sub @ ss" by simp
      then show ?thesis by blast
    qed
  next
    assume "\<exists>ps ss. c # cs = ps @ sub @ ss"
    then obtain ps ss where e: "c # cs = ps @ sub @ ss" by blast
    show "js_includes sub (c # cs)"
    proof (cases ps)
      case Nil
      then have "starts_with sub (c # cs)" using e by (auto simp: starts_with_iff)
      then show ?thesis by simp
    next
      case (Cons p ps')
      then have "cs = ps' @ sub @ ss" using e by simp
      then have "js_includes sub cs" using Cons.IH by blast
      then show ?thesis by simp
    qed
  qed
qed

section \<open>Facts about the state updates\<close>

lemma selector_setStateAndUpdateStage_same:
  "p_selector st = Some (selector c) \<Longrightarrow> selector (setStateAndUpdateStage props st c) = selector c"
  by (simp add: setStateAndUpdateStage_def setState_def)

lemma selector_setStateAndUpdateStage_none:
  "p_selector st = None \<Longrightarrow> selector (setStateAndUpdateStage props st c) = selector c"
  by (simp add: setStateAndUpdateStage_def setState_def)

lemma onChange_setStateAndUpdateStage:
  "onChange_calls (setStateAndUpdateStage props st c) =
     (case p_selector st of
        Some s \<Rightarrow> if has_onChange props then onChange_calls c @ [s] else onChange_calls c
      | None \<Rightarrow> onChange_calls c)"
  by (simp add: setStateAndUpdateStage_def setState_def split: option.splits)

lemma selector_search_push: "selector (state_of (search_push props q c)) = selector c"
  by (simp add: search_push_def Let_def setStateAndUpdateStage_def setState_def no_fields_def
      split: sum.splits)

lemma onChange_search_push: "onChange_calls (state_of (search_push props q c)) = onChange_calls c"
  by (simp add: search_push_def Let_def setStateAndUpdateStage_def setState_def no_fields_def
      split: sum.splits)

lemma accounts_search_push: "accounts (state_of (search_push props q c)) = accounts c"
  by (simp add: search_push_def Let_def setStateAndUpdateStage_def setState_def no_fields_def
      split: sum.splits)

text \<open>A push throws exactly when the subscription is open and the account is \<open>null\<close>.\<close>

lemma thrown_search_push:
  "thrown (search_push props (k, ns, acct) c) =
     (if search_subscribed c \<and> acct = Null then Some TypeError else None)"
  by (cases acct) (simp_all add: search_push_def Let_def)

lemma search_push_Str:
  "search_push props (k, ns, Str a) c =
     Returns (if search_subscribed c
              then (setStateAndUpdateStage props (no_fields\<lparr>p_loading := Some True\<rparr>) c)
                     \<lparr>search_next := search_next c @ [(k, ns, Str a)]\<rparr>
              else c)"
  by (simp add: search_push_def Let_def)

lemma find_sort_namespaces_in_place:
  "find (\<lambda>a. acc_name a = n) (sort_namespaces_in_place n accts) =
     map_option (\<lambda>a. a\<lparr>acc_namespaces := map_option sort (acc_namespaces a)\<rparr>)
       (find (\<lambda>a. acc_name a = n) accts)"
  by (induction accts) auto

lemma selector_dynamic_handleModeChange:
  "selector (dynamic_handleModeChange props c) =
     (selector c)\<lparr>kind := fst (parseSpinnakerName (manifestName (selector c))),
                  manifestName := Null\<rparr>"
  by (simp add: dynamic_handleModeChange_def Let_def selector_setStateAndUpdateStage_same
      no_fields_def)

lemma selector_static_handleModeChange:
  "selector (static_handleModeChange props c) =
     (selector c)\<lparr>manifestName :=
        (if truthy (kind (selector c))
         then (if truthy (snd (parseSpinnakerName (manifestName (selector c))))
               then Str (template (kind (selector c)) @ '' '' @
                         template (snd (parseSpinnakerName (manifestName (selector c)))))
               else kind (selector c))
         else snd (parseSpinnakerName (manifestName (selector c)))),
        kind := Null, criteria := Null, cluster := Null\<rparr>"
  by (simp add: static_handleModeChange_def static_handleKindChange_def Let_def
      selector_setStateAndUpdateStage_same no_fields_def)

lemma selector_handleModeSelect:
  "selector (handleModeSelect props m c) =
     (case m of
        Static \<Rightarrow>
          selector (static_handleModeChange props (c\<lparr>selector := (selector c)\<lparr>mode := Some m\<rparr>\<rparr>))
      | Dynamic \<Rightarrow>
          selector (dynamic_handleModeChange props (c\<lparr>selector := (selector c)\<lparr>mode := Some m\<rparr>\<rparr>)))"
  by (cases m)
     (simp_all add: handleModeSelect_def Let_def modeDelegate_def
        selector_setStateAndUpdateStage_same no_fields_def selector_static_handleModeChange
        selector_dynamic_handleModeChange setStateAndUpdateStage_def setState_def)

lemma manifestName_handleNameChange:
  "manifestName (selector (handleNameChange props n c)) =
     Str (or_empty (fst (parseSpinnakerName (manifestName (selector c)))) @ '' '' @ n)"
proof -
  obtain k where k: "fst (parseSpinnakerName (manifestName (selector c))) = Str k"
    using fst_parse_Str by blast
  show ?thesis
    by (simp add: handleNameChange_def Let_def selector_setStateAndUpdateStage_same
        no_fields_def k)
qed

lemmas example_defs =
  component_for_def componentDidMount_def init_component_def empty_selector_def
  plain_props_def parseSpinnakerName_def Let_def

section \<open>Switching the mode\<close>

text \<open>
  Claim C1, as amended. For every selector, the Static handler's mode activation
  (\<open>handleModeChange\<close>, also when reached through \<open>handleModeSelect\<close>) sets \<open>kind\<close>,
  \<open>criteria\<close> and \<open>cluster\<close> to \<open>null\<close>. When the prior \<open>kind\<close> is a non-empty string,
  \<open>manifestName\<close> becomes that string if the prior \<open>manifestName\<close> holds no name (it is
  unset, as the Dynamic handler leaves it, or its second token is empty or missing), and
  the prior kind, a space and the held name otherwise. When the prior \<open>kind\<close> is empty,
  \<open>null\<close> or \<open>undefined\<close>, \<open>manifestName\<close> becomes the name parsed from the prior
  \<open>manifestName\<close>, which is \<open>undefined\<close> for an unset \<open>manifestName\<close>.
\<close>

theorem static_handleModeChange_migrates:
  "kind (selector (static_handleModeChange props c)) = Null \<and>
   criteria (selector (static_handleModeChange props c)) = Null \<and>
   cluster (selector (static_handleModeChange props c)) = Null \<and>
   (kind (selector c) = Str k \<and> k \<noteq> [] \<longrightarrow>
      manifestName (selector (static_handleModeChange props c)) =
        (if truthy (snd (parseSpinnakerName (manifestName (selector c))))
         then Str (k @ '' '' @ template (snd (parseSpinnakerName (manifestName (selector c)))))
         else Str k)) \<and>
   (\<not> truthy (kind (selector c)) \<longrightarrow>
      manifestName (selector (static_handleModeChange props c)) =
        snd (parseSpinnakerName (manifestName (selector c)))) \<and>
   (\<not> truthy (kind (selector c)) \<and> \<not> truthy (manifestName (selector c)) \<longrightarrow>
      manifestName (selector (static_handleModeChange props c)) = Undefined) \<and>
   selector (handleModeSelect props Static c) =
     (selector (static_handleModeChange props c))\<lparr>mode := Some Static\<rparr>"
  by (simp add: selector_static_handleModeChange selector_handleModeSelect parse_unset)

theorem static_handleModeChange_migrates_witness:
  "kind (selector (static_handleModeChange plain_props
     (component_for (empty_selector\<lparr>mode := Some Dynamic, kind := Str ''Deployment'',
        manifestName := Null, cluster := Str ''web'', criteria := Str ''newest''\<rparr>)))) = Null \<and>
   criteria (selector (static_handleModeChange plain_props
     (component_for (empty_selector\<lparr>mode := Some Dynamic, kind := Str ''Deployment'',
        manifestName := Null, cluster := Str ''web'', criteria := Str ''newest''\<rparr>)))) = Null \<and>
   cluster (selector (static_handleModeChange plain_props
     (component_for (empty_selector\<lparr>mode := Some Dynamic, kind := Str ''Deployment'',
        manifestName := Null, cluster := Str ''web'', criteria := Str ''newest''\<rparr>)))) = Null \<and>
   manifestName (selector (static_handleModeChange plain_props
     (component_for (empty_selector\<lparr>mode := Some Dynamic, kind := Str ''Deployment'',
        manifestName := Null, cluster := Str ''web'', criteria := Str ''newest''\<rparr>)))) =
     Str ''Deployment'' \<and>
   manifestName (selector (static_handleModeChange plain_props
     (component_for (empty_selector\<lparr>mode := Some Dynamic, kind := Str ''Service'',
        manifestName := Str ''Deployment foo''\<rparr>)))) = Str ''Service foo'' \<and>
   kind (selector (static_handleModeChange plain_props
     (component_for (empty_selector\<lparr>mode := Some Dynamic, kind := Str [],
        manifestName := Null\<rparr>)))) = Null \<and>
   manifestName (selector (static_handleModeChange plain_props
     (component_for (empty_selector\<lparr>mode := Some Dynamic, kind := Str [],
        manifestName := Null\<rparr>)))) = Undefined"
proof -
  let ?c1 = "component_for (empty_selector\<lparr>mode := Some Dynamic, kind := Str ''Deployment'',
        manifestName := Null, cluster := Str ''web'', criteria := Str ''newest''\<rparr>)"
  let ?c2 = "component_for (empty_selector\<lparr>mode := Some Dynamic, kind := Str ''Service'',
        manifestName := Str ''Deployment foo''\<rparr>)"
  let ?c3 = "component_for (empty_selector\<lparr>mode := Some Dynamic, kind := Str [],
        manifestName := Null\<rparr>)"
  have k1: "kind (selector ?c1) = Str ''Deployment'' \<and> ''Deployment'' \<noteq> []"
    and n1: "\<not> truthy (snd (parseSpinnakerName (manifestName (selector ?c1))))"
    by (simp_all add: example_defs)
  have k2: "kind (selector ?c2) = Str ''Service'' \<and> ''Service'' \<noteq> []"
    and n2: "snd (parseSpinnakerName (manifestName (selector ?c2))) = Str ''foo''"
    by (simp_all add: example_defs)
  have k3: "\<not> truthy (kind (selector ?c3)) \<and> \<not> truthy (manifestName (selector ?c3))"
    by (simp add: example_defs)
  show ?thesis
    using static_handleModeChange_migrates [of plain_props ?c1 "''Deployment''"]
      static_handleModeChange_migrates [of plain_props ?c2 "''Service''"]
      static_handleModeChange_migrates [of plain_props ?c3 "[]"]
      k1 n1 k2 n2 k3
    by (simp add: parse_unset)
qed

text \<open>
  Claim C1 as stated fails. A fresh selector switched to Dynamic and back to Static has,
  in Dynamic mode, the empty string as its kind, and \<open>manifestName\<close> ends \<open>undefined\<close>, not
  that string. And a selector in Dynamic mode that still holds a name keeps it:
  \<open>manifestName\<close> ends as kind and name, not as the kind alone.
\<close>

theorem static_handleModeChange_counterexample:
  "mode (selector (handleModeSelect plain_props Dynamic (component_for empty_selector))) = Some Dynamic \<and>
   kind (selector (handleModeSelect plain_props Dynamic (component_for empty_selector))) = Str [] \<and>
   manifestName (selector (handleModeSelect plain_props Dynamic (component_for empty_selector))) = Null \<and>
   manifestName (selector (static_handleModeChange plain_props
      (handleModeSelect plain_props Dynamic (component_for empty_selector)))) = Undefined \<and>
   manifestName (selector (static_handleModeChange plain_props
      (handleModeSelect plain_props Dynamic (component_for empty_selector)))) \<noteq>
     kind (selector (handleModeSelect plain_props Dynamic (component_for empty_selector))) \<and>
   manifestName (selector (static_handleModeChange plain_props
      (component_for (empty_selector\<lparr>mode := Some Dynamic, kind := Str ''Service'',
         manifestName := Str ''Deployment foo''\<rparr>)))) = Str ''Service foo'' \<and>
   manifestName (selector (static_handleModeChange plain_props
      (component_for (empty_selector\<lparr>mode := Some Dynamic, kind := Str ''Service'',
         manifestName := Str ''Deployment foo''\<rparr>)))) \<noteq> Str ''Service''"
  by (simp add: selector_static_handleModeChange selector_handleModeSelect
      selector_dynamic_handleModeChange example_defs)


section \<open>Packing and parsing names\<close>

text \<open>
  Claim C4, as amended. \<open>handleNameChange\<close> packs the kind parsed from the current
  \<open>manifestName\<close>, which is always a string (the empty string when there is none), with
  the chosen name: kind, a space, name. For a name without a space, parsing the packed
  string gives back that kind and the name. So \<open>Deployment\<close> and \<open>foo\<close> give
  \<open>Deployment foo\<close> and parse back to the two; with no kind the packed string is the
  name after one space, and it parses to the empty string as kind, not \<open>undefined\<close>,
  and the name.
\<close>

theorem handleNameChange_roundtrip:
  assumes "CHR '' '' \<notin> set n"
  shows "\<exists>k. fst (parseSpinnakerName (manifestName (selector c))) = Str k \<and>
             manifestName (selector (handleNameChange props n c)) = Str (k @ '' '' @ n) \<and>
             parseSpinnakerName (manifestName (selector (handleNameChange props n c))) =
               (Str k, Str n)"
proof -
  obtain k where k: "fst (parseSpinnakerName (manifestName (selector c))) = Str k"
    and sp: "CHR '' '' \<notin> set k"
    using fst_parse_Str by blast
  have "manifestName (selector (handleNameChange props n c)) = Str (k @ '' '' @ n)"
    by (simp add: manifestName_handleNameChange k)
  moreover have "parseSpinnakerName (Str (k @ '' '' @ n)) = (Str k, Str n)"
    using sp assms by (rule parse_pack)
  ultimately show ?thesis using k by simp
qed

theorem handleNameChange_roundtrip_witness:
  "manifestName (selector (handleNameChange plain_props ''foo''
      (component_for (empty_selector\<lparr>manifestName := Str ''Deployment''\<rparr>)))) =
     Str ''Deployment foo'' \<and>
   parseSpinnakerName (manifestName (selector (handleNameChange plain_props ''foo''
      (component_for (empty_selector\<lparr>manifestName := Str ''Deployment''\<rparr>))))) =
     (Str ''Deployment'', Str ''foo'') \<and>
   manifestName (selector (handleNameChange plain_props ''foo''
      (component_for empty_selector))) = Str '' foo'' \<and>
   parseSpinnakerName (manifestName (selector (handleNameChange plain_props ''foo''
      (component_for empty_selector)))) = (Str [], Str ''foo'')"
proof -
  have n: "CHR '' '' \<notin> set ''foo''" by simp
  have k1: "fst (parseSpinnakerName (manifestName (selector
      (component_for (empty_selector\<lparr>manifestName := Str ''Deployment''\<rparr>))))) = Str ''Deployment''"
    by (simp add: example_defs)
  have k2: "fst (parseSpinnakerName (manifestName (selector (component_for empty_selector)))) = Str []"
    by (simp add: example_defs)
  show ?thesis
    using handleNameChange_roundtrip [OF n,
        of "component_for (empty_selector\<lparr>manifestName := Str ''Deployment''\<rparr>)" plain_props]
      handleNameChange_roundtrip [OF n, of "component_for empty_selector" plain_props]
    unfolding k1 k2 by auto
qed

text \<open>
  Claim C4 as stated fails in its second half: the name packed with no kind parses to
  the empty string as kind, which is not \<open>undefined\<close>.
\<close>

theorem parse_leading_space_counterexample:
  "manifestName (selector (handleNameChange plain_props ''foo''
      (component_for empty_selector))) = Str '' foo'' \<and>
   parseSpinnakerName (Str '' foo'') = (Str [], Str ''foo'') \<and>
   parseSpinnakerName (Str '' foo'') \<noteq> (Undefined, Str ''foo'')"
  by (simp add: manifestName_handleNameChange example_defs)

text \<open>
  Claim C5, as amended. Parsing cuts a \<open>manifestName\<close> string at every space and takes
  the first token as kind and the second as name: the kind is the part before the first
  space, always a string (empty when the string starts with a space), and the name is
  the part between the first space and the second (\<open>undefined\<close> when there is no
  space); what follows a second space is dropped. It agrees with cutting once at the
  first space exactly when the kind is not empty and the rest holds no further space.
\<close>

theorem parseSpinnakerName_first_two_tokens:
  "parseSpinnakerName (Str s) =
     (Str (takeWhile (\<lambda>c. c \<noteq> CHR '' '') s),
      if dropWhile (\<lambda>c. c \<noteq> CHR '' '') s = [] then Undefined
      else Str (takeWhile (\<lambda>c. c \<noteq> CHR '' '') (tl (dropWhile (\<lambda>c. c \<noteq> CHR '' '') s)))) \<and>
   (parseSpinnakerName (Str s) = splitOnFirstSpace s) =
     (takeWhile (\<lambda>c. c \<noteq> CHR '' '') s \<noteq> [] \<and>
      CHR '' '' \<notin> set (tl (dropWhile (\<lambda>c. c \<noteq> CHR '' '') s)))"
  using parse_tokens [of s] parse_vs_first_space [of s] by (rule conjI)

text \<open>
  Claim C5 as stated fails: a name with a further space is cut at it, and a string with
  no kind before the space has the empty string as kind, not \<open>undefined\<close>.
\<close>

theorem parseSpinnakerName_counterexample:
  "parseSpinnakerName (Str ''Deployment my app'') = (Str ''Deployment'', Str ''my'') \<and>
   splitOnFirstSpace ''Deployment my app'' = (Str ''Deployment'', Str ''my app'') \<and>
   parseSpinnakerName (Str ''Deployment my app'') \<noteq> splitOnFirstSpace ''Deployment my app'' \<and>
   fst (parseSpinnakerName (Str '' foo'')) = Str [] \<and>
   fst (parseSpinnakerName (Str '' foo'')) \<noteq> Undefined"
  by (simp add: parseSpinnakerName_def splitOnFirstSpace_def)

section \<open>Searching\<close>

text \<open>
  Claim C6. When the account of a search contains the marker \<open>${\<close>, \<open>search\<close> resolves
  to the empty list and makes no call to the kind-search service.
\<close>

theorem search_expression_guard:
  assumes "js_includes ''${'' a"
  shows "search svc k ns (Str a) = ([], Inr [])"
  using assms by (simp add: search_def)

theorem search_expression_guard_witness:
  "js_includes ''${'' ''${myAccount}'' \<and>
   search (\<lambda>k ns a. Inr [\<lparr>res_name = ''deployment web''\<rparr>])
     (Str ''deployment'') (Str ''default'') (Str ''${myAccount}'') = ([], Inr [])"
proof -
  have m: "js_includes ''${'' ''${myAccount}''" by simp
  show ?thesis
    using m search_expression_guard [OF m,
      of "\<lambda>k ns a. Inr [\<lparr>res_name = ''deployment web''\<rparr>]" "Str ''deployment''" "Str ''default''"]
    by simp
qed




section \<open>Changing the account\<close>

text \<open>
  Claim C7. When the account chosen is one of the loaded accounts and a namespace is
  selected, \<open>handleAccountChange\<close> returns normally, and the namespace is set to
  \<open>null\<close> if it is not a templated expression and is not among the namespaces of the
  chosen account; a templated namespace and one the account has are left as they are.
\<close>

theorem handleAccountChange_clears_namespace:
  assumes "find (\<lambda>a. acc_name a = acct) (accounts c) = Some d"
      and "location (selector c) = Str ns"
  shows "thrown (handleAccountChange props acct c) = None \<and>
         location (selector (state_of (handleAccountChange props acct c))) =
           (if \<not> js_includes ''${'' ns \<and>
               ns \<notin> set (case acc_namespaces d of None \<Rightarrow> [] | Some l \<Rightarrow> l)
            then Null else Str ns)"
proof -
  define l where "l = (case acc_namespaces d of None \<Rightarrow> [] | Some l \<Rightarrow> l)"
  have m: "list_all (\<lambda>x. x \<noteq> ns) (sort l) = (ns \<notin> set l)"
    by (auto simp: list_all_iff)
  show ?thesis
    using assms unfolding l_def[symmetric]
    by (simp add: handleAccountChange_def Let_def search_push_Str setStateAndUpdateStage_def
        setState_def no_fields_def m l_def[symmetric])
qed

theorem handleAccountChange_clears_namespace_witness:
  "location (selector (state_of (handleAccountChange plain_props ''prod''
     ((component_for (empty_selector\<lparr>location := Str ''ns-c''\<rparr>))
        \<lparr>accounts := [\<lparr>acc_name = ''prod'', acc_namespaces = Some [''ns-a'', ''ns-b''],
                        acc_spinnakerKindMap = None\<rparr>]\<rparr>)))) = Null \<and>
   location (selector (state_of (handleAccountChange plain_props ''prod''
     ((component_for (empty_selector\<lparr>location := Str ''ns-b''\<rparr>))
        \<lparr>accounts := [\<lparr>acc_name = ''prod'', acc_namespaces = Some [''ns-a'', ''ns-b''],
                        acc_spinnakerKindMap = None\<rparr>]\<rparr>)))) = Str ''ns-b'' \<and>
   location (selector (state_of (handleAccountChange plain_props ''prod''
     ((component_for (empty_selector\<lparr>location := Str ''${ns}''\<rparr>))
        \<lparr>accounts := [\<lparr>acc_name = ''prod'', acc_namespaces = Some [''ns-a'', ''ns-b''],
                        acc_spinnakerKindMap = None\<rparr>]\<rparr>)))) = Str ''${ns}''"
proof -
  let ?d = "\<lparr>acc_name = ''prod'', acc_namespaces = Some [''ns-a'', ''ns-b''],
             acc_spinnakerKindMap = None\<rparr>"
  have f: "find (\<lambda>a. acc_name a = ''prod'')
             (accounts ((component_for (empty_selector\<lparr>location := Str x\<rparr>))\<lparr>accounts := [?d]\<rparr>)) =
           Some ?d" for x
    by simp
  have l: "location (selector ((component_for (empty_selector\<lparr>location := Str x\<rparr>))
             \<lparr>accounts := [?d]\<rparr>)) = Str x" for x
    by (simp add: example_defs)
  show ?thesis
    using handleAccountChange_clears_namespace [OF f [of "''ns-c''"] l [of "''ns-c''"], of plain_props]
      handleAccountChange_clears_namespace [OF f [of "''ns-b''"] l [of "''ns-b''"], of plain_props]
      handleAccountChange_clears_namespace [OF f [of "''${ns}''"] l [of "''${ns}''"], of plain_props]
    by simp
qed

text \<open>
  With the namespace \<open>null\<close>, which is what the component itself stores for a cleared
  namespace, the test for a templated expression throws and the account is not changed.
\<close>

lemma handleAccountChange_null_location:
  "find (\<lambda>a. acc_name a = acct) (accounts c) = Some d \<Longrightarrow> location (selector c) = Null \<Longrightarrow>
   handleAccountChange props acct c =
     Throws TypeError (c\<lparr>accounts := sort_namespaces_in_place acct (accounts c)\<rparr>)"
  by (simp add: handleAccountChange_def Let_def)

text \<open>
  After a change to a loaded account the account held in the state has its namespaces
  sorted, as the sort in place leaves them.
\<close>

lemma handleAccountChange_sorts_in_place:
  "find (\<lambda>a. acc_name a = acct) (accounts c) = Some d \<Longrightarrow>
   accounts (state_of (handleAccountChange props acct c)) =
     sort_namespaces_in_place acct (accounts c)"
  by (simp add: handleAccountChange_def Let_def search_push_Str setStateAndUpdateStage_def
      setState_def no_fields_def split: sum.splits)

section \<open>Loading the accounts\<close>

lemma account_handleAccountChange:
  "account (selector c) = Str a \<Longrightarrow>
   account (selector (state_of (handleAccountChange props a c))) = Str a"
  by (simp add: handleAccountChange_def Let_def search_push_Str setStateAndUpdateStage_def
        setState_def no_fields_def split: option.splits sum.splits)

lemma account_loadAccounts:
  "account (selector (state_of (loadAccounts props dflt accts c))) =
   (case accts of
      [] \<Rightarrow> account (selector c)
    | a0 # rest \<Rightarrow>
        if \<not> truthy (account (selector c))
        then (if list_ex (\<lambda>e. Str (acc_name e) = dflt) accts then dflt else Str (acc_name a0))
        else account (selector c))"
proof -
  define c1 where "c1 = setStateAndUpdateStage props (no_fields\<lparr>p_accounts := Some accts\<rparr>) c"
  define c2 where "c2 = (case accts of
                  [] \<Rightarrow> c1
                | a0 # rest \<Rightarrow>
                    if \<not> truthy (account (selector c1))
                    then c1\<lparr>selector := (selector c1)\<lparr>account :=
                           (if list_ex (\<lambda>e. Str (acc_name e) = dflt) accts then dflt
                            else Str (acc_name a0))\<rparr>\<rparr>
                    else c1)"
  define r3 where "r3 = (if truthy (account (selector c2))
                then handleAccountChange props (or_empty (account (selector c2))) c2
                else Returns c2)"
  let ?k = "fst (parseSpinnakerName (manifestName (selector c)))"
  have s1: "selector c1 = selector c"
    by (simp add: c1_def selector_setStateAndUpdateStage_none no_fields_def)
  have a3: "account (selector (state_of r3)) = account (selector c2)"
  proof (cases "account (selector c2)")
    case (Str a)
    then show ?thesis
      by (simp add: r3_def account_handleAccountChange)
  qed (simp_all add: r3_def)
  have l: "state_of (loadAccounts props dflt accts c) =
      (case r3 of
         Throws e c3 \<Rightarrow> c3
       | Returns c3 \<Rightarrow>
           if truthy ?k
           then state_of (search_push props (?k, location (selector c3), account (selector c3)) c3)
           else c3)"
    unfolding loadAccounts_def Let_def c1_def[symmetric] c2_def[symmetric] r3_def[symmetric]
    by (simp split: completion.splits)
  have "account (selector (state_of (loadAccounts props dflt accts c))) =
        account (selector (state_of r3))"
    unfolding l by (cases r3) (simp_all add: selector_search_push)
  also have "\<dots> = account (selector c2)" by (rule a3)
  also have "\<dots> = (case accts of
      [] \<Rightarrow> account (selector c)
    | a0 # rest \<Rightarrow>
        if \<not> truthy (account (selector c))
        then (if list_ex (\<lambda>e. Str (acc_name e) = dflt) accts then dflt else Str (acc_name a0))
        else account (selector c))"
    by (simp add: c2_def s1 split: list.splits)
  finally show ?thesis .
qed

text \<open>
  Claim C10. When the selector has no account (it is unset or empty) and the loaded
  account list is not empty, then after \<open>loadAccounts\<close>, whether it returned or threw,
  the selector's account is the configured default account if one of the loaded
  accounts has that name, and the name of the first loaded account otherwise.
\<close>

theorem loadAccounts_default_account:
  assumes "\<not> truthy (account (selector c))" and "accts \<noteq> []"
  shows "account (selector (state_of (loadAccounts props dflt accts c))) =
           (if dflt \<in> Str ` acc_name ` set accts then dflt else Str (acc_name (hd accts)))"
proof -
  have "list_ex (\<lambda>e. Str (acc_name e) = dflt) accts = (dflt \<in> Str ` acc_name ` set accts)"
    by (auto simp: list_ex_iff)
  then show ?thesis
    using assms by (cases accts) (simp_all add: account_loadAccounts)
qed

theorem loadAccounts_default_account_witness:
  "account (selector (state_of (loadAccounts plain_props (Str ''prod'')
     [\<lparr>acc_name = ''dev'', acc_namespaces = Some [''ns-a''], acc_spinnakerKindMap = None\<rparr>,
      \<lparr>acc_name = ''prod'', acc_namespaces = Some [''ns-b''], acc_spinnakerKindMap = None\<rparr>]
     (component_for empty_selector)))) = Str ''prod'' \<and>
   account (selector (state_of (loadAccounts plain_props (Str ''stage'')
     [\<lparr>acc_name = ''dev'', acc_namespaces = Some [''ns-a''], acc_spinnakerKindMap = None\<rparr>,
      \<lparr>acc_name = ''prod'', acc_namespaces = Some [''ns-b''], acc_spinnakerKindMap = None\<rparr>]
     (component_for empty_selector)))) = Str ''dev''"
proof -
  let ?accts = "[\<lparr>acc_name = ''dev'', acc_namespaces = Some [''ns-a''], acc_spinnakerKindMap = None\<rparr>,
      \<lparr>acc_name = ''prod'', acc_namespaces = Some [''ns-b''], acc_spinnakerKindMap = None\<rparr>]"
  have u: "\<not> truthy (account (selector (component_for empty_selector)))"
    by (simp add: example_defs)
  have n: "?accts \<noteq> []" by simp
  show ?thesis
    using loadAccounts_default_account [OF u n, of plain_props "Str ''prod''"]
      loadAccounts_default_account [OF u n, of plain_props "Str ''stage''"]
    by simp
qed

section \<open>Telling the owner\<close>

text \<open>
  The setters for the name, the namespace, the cluster, the criteria, the mode and the
  account end with a call of the owner's callback, which sees the selector as the
  setter leaves it.
\<close>

lemma handleNameChange_onChange:
  "has_onChange props \<Longrightarrow>
   onChange_calls (handleNameChange props n c) =
     onChange_calls c @ [selector (handleNameChange props n c)]"
  by (simp add: handleNameChange_def Let_def setStateAndUpdateStage_def setState_def no_fields_def)

lemma handleNamespaceChange_onChange:
  "has_onChange props \<Longrightarrow> thrown (handleNamespaceChange props v c) = None \<Longrightarrow>
   onChange_calls (state_of (handleNamespaceChange props v c)) =
     onChange_calls c @ [selector (state_of (handleNamespaceChange props v c))]"
  by (simp add: handleNamespaceChange_def Let_def search_push_def setStateAndUpdateStage_def
      setState_def no_fields_def split: sum.splits if_splits)

lemma handleClusterChange_onChange:
  "has_onChange props \<Longrightarrow>
   onChange_calls (handleClusterChange props v c) =
     onChange_calls c @ [selector (handleClusterChange props v c)]"
  by (simp add: handleClusterChange_def Let_def setStateAndUpdateStage_def setState_def
      no_fields_def)

lemma handleCriteriaChange_onChange:
  "has_onChange props \<Longrightarrow>
   onChange_calls (handleCriteriaChange props v c) =
     onChange_calls c @ [selector (handleCriteriaChange props v c)]"
  by (simp add: handleCriteriaChange_def Let_def setStateAndUpdateStage_def setState_def
      no_fields_def)

lemma handleModeSelect_onChange:
  "has_onChange props \<Longrightarrow>
   onChange_calls (handleModeSelect props m c) =
     onChange_calls c @ [(selector c)\<lparr>mode := Some m\<rparr>, selector (handleModeSelect props m c)]"
  by (cases m)
     (simp_all add: handleModeSelect_def Let_def modeDelegate_def static_handleModeChange_def
        static_handleKindChange_def dynamic_handleModeChange_def setStateAndUpdateStage_def
        setState_def no_fields_def)

lemma handleAccountChange_onChange:
  "has_onChange props \<Longrightarrow>
   find (\<lambda>a. acc_name a = acct) (accounts c) = Some d \<Longrightarrow>
   thrown (handleAccountChange props acct c) = None \<Longrightarrow>
   onChange_calls (state_of (handleAccountChange props acct c)) =
     onChange_calls c @ [selector (state_of (handleAccountChange props acct c))]"
  by (simp add: handleAccountChange_def Let_def search_push_Str setStateAndUpdateStage_def
      setState_def no_fields_def split: sum.splits)

text \<open>The setter for the kind changes the selector and makes no call of the callback.\<close>

lemma handleKindChange_onChange:
  "onChange_calls (state_of (handleKindChange props k c)) = onChange_calls c"
  by (cases "modeDelegate c")
     (simp_all add: handleKindChange_def Let_def onChange_search_push
        static_handleKindChange_def dynamic_handleKindChange_def)

text \<open>
  Claim C9 does not hold of the code for a change of kind. In Static mode, on a selector
  named \<open>Deployment foo\<close>, choosing the kind \<open>Service\<close> rewrites \<open>manifestName\<close> to
  \<open>Service foo\<close> and pushes a search, and the list of the callback's calls stays as it
  was; in Dynamic mode the \<open>kind\<close> field is rewritten, again with no call. Choosing a
  name on the same selector does call the callback, with the selector as changed.
\<close>

theorem handleKindChange_skips_onChange:
  "has_onChange plain_props \<and>
   thrown (handleKindChange plain_props (Str ''Service'')
      (component_for (empty_selector\<lparr>mode := Some Static,
         manifestName := Str ''Deployment foo''\<rparr>))) = None \<and>
   manifestName (selector (state_of (handleKindChange plain_props (Str ''Service'')
      (component_for (empty_selector\<lparr>mode := Some Static,
         manifestName := Str ''Deployment foo''\<rparr>))))) = Str ''Service foo'' \<and>
   search_next (state_of (handleKindChange plain_props (Str ''Service'')
      (component_for (empty_selector\<lparr>mode := Some Static,
         manifestName := Str ''Deployment foo''\<rparr>)))) = [(Str ''Service'', Undefined, Undefined)] \<and>
   onChange_calls (state_of (handleKindChange plain_props (Str ''Service'')
      (component_for (empty_selector\<lparr>mode := Some Static,
         manifestName := Str ''Deployment foo''\<rparr>)))) = [] \<and>
   thrown (handleKindChange plain_props (Str ''Service'')
      (component_for (empty_selector\<lparr>mode := Some Dynamic,
         kind := Str ''Deployment''\<rparr>))) = None \<and>
   kind (selector (state_of (handleKindChange plain_props (Str ''Service'')
      (component_for (empty_selector\<lparr>mode := Some Dynamic,
         kind := Str ''Deployment''\<rparr>))))) = Str ''Service'' \<and>
   onChange_calls (state_of (handleKindChange plain_props (Str ''Service'')
      (component_for (empty_selector\<lparr>mode := Some Dynamic,
         kind := Str ''Deployment''\<rparr>)))) = [] \<and>
   onChange_calls (handleNameChange plain_props ''bar''
      (component_for (empty_selector\<lparr>mode := Some Static,
         manifestName := Str ''Deployment foo''\<rparr>))) =
     [empty_selector\<lparr>mode := Some Static, manifestName := Str ''Deployment bar''\<rparr>]"
  by (simp add: handleKindChange_def handleNameChange_def modeDelegate_def
      static_handleKindChange_def dynamic_handleKindChange_def search_push_def
      setStateAndUpdateStage_def setState_def no_fields_def example_defs)

end
